theory Spec2Isabelle
  imports Complex_Main
begin

section \<open>JavaScript numbers\<close>

text \<open>
  The editor computes with JavaScript numbers.  Finite numbers are modelled as
  reals (rounding of IEEE doubles is not modelled); the results of a division,
  which may leave the finite numbers, are values of \<open>jsnum\<close>.  A divisor that
  is zero is taken to be the positive zero, which is what a difference
  \<open>a - b\<close> of equal finite numbers gives.
\<close>

datatype jsnum = Num real | PosInf | NegInf | NaN

definition js_div :: "real \<Rightarrow> real \<Rightarrow> jsnum" where
  "js_div a b =
     (if b \<noteq> 0 then Num (a / b)
      else if a = 0 then NaN
      else if 0 < a then PosInf else NegInf)"

definition js_mul :: "real \<Rightarrow> jsnum \<Rightarrow> jsnum" where
  "js_mul a b =
     (case b of
        Num v \<Rightarrow> Num (a * v)
      | PosInf \<Rightarrow> (if a = 0 then NaN else if 0 < a then PosInf else NegInf)
      | NegInf \<Rightarrow> (if a = 0 then NaN else if 0 < a then NegInf else PosInf)
      | NaN \<Rightarrow> NaN)"

text \<open>Truthiness of a number: zero and NaN are falsy.\<close>

definition truthy :: "jsnum \<Rightarrow> bool" where
  "truthy v = (case v of Num a \<Rightarrow> a \<noteq> 0 | PosInf \<Rightarrow> True | NegInf \<Rightarrow> True | NaN \<Rightarrow> False)"

text \<open>The operator \<^verbatim>\<open>a || b\<close> on numbers.\<close>

definition js_or :: "jsnum \<Rightarrow> jsnum \<Rightarrow> jsnum" where
  "js_or a b = (if truthy a then a else b)"

text \<open>
  The remainder operator \<^verbatim>\<open>a % b\<close> for a finite dividend and a finite non-zero
  divisor: the quotient is truncated toward zero, so the result has the sign
  of the dividend.
\<close>

definition js_trunc :: "real \<Rightarrow> int" where
  "js_trunc v = (if 0 \<le> v then \<lfloor>v\<rfloor> else \<lceil>v\<rceil>)"

definition js_rem :: "real \<Rightarrow> real \<Rightarrow> real" where
  "js_rem a b = a - b * of_int (js_trunc (a / b))"


section \<open>Effects and their storage form (EffectFactory)\<close>

record effects =
  rotation :: real
  mirrorX :: bool
  mirrorY :: bool

text \<open>
  The stored structure \<^verbatim>\<open>{ r, x, y }\<close>.  A property that is missing from a
  stored project is \<open>None\<close> (\<^verbatim>\<open>undefined\<close>).
\<close>

datatype stored_effects =
  StoredEffects (stored_r: "real option") (stored_x: "bool option") (stored_y: "bool option")

text \<open>
  \<^verbatim>\<open>create({ rotation = 0, mirrorX = false, mirrorY = false } = {})\<close>: a
  default is taken where the property is \<^verbatim>\<open>undefined\<close>.
\<close>

definition create :: "real option \<Rightarrow> bool option \<Rightarrow> bool option \<Rightarrow> effects" where
  "create rot mx my =
     \<lparr> rotation = (case rot of None \<Rightarrow> 0 | Some v \<Rightarrow> v),
       mirrorX = (case mx of None \<Rightarrow> False | Some b \<Rightarrow> b),
       mirrorY = (case my of None \<Rightarrow> False | Some b \<Rightarrow> b) \<rparr>"

definition serialize :: "effects \<Rightarrow> stored_effects" where
  "serialize e = StoredEffects (Some (rotation e)) (Some (mirrorX e)) (Some (mirrorY e))"

definition deserialize :: "stored_effects \<Rightarrow> effects" where
  "deserialize s = create (stored_r s) (stored_x s) (stored_y s)"


section \<open>The pixel filters (renderFilters)\<close>

record filters =
  levels :: real
  contrast :: real

definition MAX_8BIT :: real where
  "MAX_8BIT = 255"

definition HALF :: real where
  "HALF = 1 / 2"

text \<open>
  The local constant \<^verbatim>\<open>contrast\<close> of renderFilters:
  \<^verbatim>\<open>Math.pow((( filters.contrast * 100 ) + 100 ) / 100, 2 )\<close>.
\<close>

definition contrastFactor :: "real \<Rightarrow> real" where
  "contrastFactor c = (((c * 100) + 100) / 100) ^ 2"

text \<open>
  The pixel data of a canvas is a typed array.  A write \<^verbatim>\<open>data[ i ] = v\<close>
  converts \<open>v\<close> to an element of the array; the conversion belongs to the
  platform and is the parameter \<open>store\<close>.  A write beyond the end of a typed
  array is ignored, as \<open>list_update\<close> does.

  Step 1 of the loop body, at the pixel that starts at index \<open>i\<close>.
\<close>

definition adjustLevel :: "(real \<Rightarrow> real) \<Rightarrow> real \<Rightarrow> nat \<Rightarrow> real list \<Rightarrow> real list" where
  "adjustLevel store lv i data =
     (if lv \<noteq> 0 then
        (let d1 = data[i := store (data ! i * lv * lv)];
             d2 = d1[i + 1 := store (d1 ! (i + 1) * lv * lv)];
             d3 = d2[i + 2 := store (d2 ! (i + 2) * lv * lv)]
         in d3)
      else data)"

text \<open>Step 2 of the loop body; \<open>ct\<close> is the local constant \<^verbatim>\<open>contrast\<close>.\<close>

definition adjustContrast :: "(real \<Rightarrow> real) \<Rightarrow> real \<Rightarrow> nat \<Rightarrow> real list \<Rightarrow> real list" where
  "adjustContrast store ct i data =
     (if ct \<noteq> 0 then
        (let d1 = data[i := store (((data ! i / MAX_8BIT - HALF) * ct + HALF) * MAX_8BIT)];
             d2 = d1[i + 1 := store (((d1 ! (i + 1) / MAX_8BIT - HALF) * ct + HALF) * MAX_8BIT)];
             d3 = d2[i + 2 := store (((d2 ! (i + 2) / MAX_8BIT - HALF) * ct + HALF) * MAX_8BIT)]
         in d3)
      else data)"

definition filterPixel :: "(real \<Rightarrow> real) \<Rightarrow> real \<Rightarrow> real \<Rightarrow> nat \<Rightarrow> real list \<Rightarrow> real list" where
  "filterPixel store lv ct i data = adjustContrast store ct i (adjustLevel store lv i data)"

text \<open>
  The two nested loops: \<open>x\<close> runs over the columns, \<open>y\<close> over the rows, and
  the pixel starts at \<^verbatim>\<open>( y * width + x ) * 4\<close>.
\<close>

definition filterLoop ::
  "(real \<Rightarrow> real) \<Rightarrow> real \<Rightarrow> real \<Rightarrow> nat \<Rightarrow> nat \<Rightarrow> real list \<Rightarrow> real list" where
  "filterLoop store lv ct width height data =
     fold (\<lambda>x d. fold (\<lambda>y d'. filterPixel store lv ct ((y * width + x) * 4) d') [0..<height] d)
       [0..<width] data"

text \<open>What renderFilters computes from the pixel data of its source.\<close>

definition renderFiltersData ::
  "(real \<Rightarrow> real) \<Rightarrow> filters \<Rightarrow> nat \<Rightarrow> nat \<Rightarrow> real list \<Rightarrow> real list" where
  "renderFiltersData store f width height data =
     (let ct = contrastFactor (contrast f);
          lv = levels f * 2
      in filterLoop store lv ct width height data)"


section \<open>Surfaces, layers and sprites\<close>

text \<open>
  A canvas or image is a surface: its size and the drawing commands it has
  received since it was last cleared by a resize.  Rasterisation belongs to the
  platform.  \<open>DrawImage\<close> holds the drawn bitmap as it was when it was drawn.
\<close>

datatype surface = Surface (swidth: nat) (sheight: nat) (content: "ctx_op list")
  and ctx_op =
      Save
    | Restore
    | Scale real real
    | Translate real real
    | Rotate real
    | DrawImage surface real real
    | SetCompositeOperation string
    | ClearRect real real real real
    | SetFont real string
    | SetFillStyle string
    | FillText string real real
    | PutImageData "real list" real real

text \<open>
  Canvases are objects that several owners may share (a sprite's bitmap can be
  the canvas of its layer's source), so they live in a store and are named by
  their address.
\<close>

type_synonym addr = nat
type_synonym store = "addr \<Rightarrow> surface"

definition emit :: "addr \<Rightarrow> ctx_op \<Rightarrow> store \<Rightarrow> store" where
  "emit a opn hp = hp(a := Surface (swidth (hp a)) (sheight (hp a)) (content (hp a) @ [opn]))"

definition drawImage :: "addr \<Rightarrow> addr \<Rightarrow> real \<Rightarrow> real \<Rightarrow> store \<Rightarrow> store" where
  "drawImage ctx img tx ty hp = emit ctx (DrawImage (hp img) tx ty) hp"

datatype layer_type = LAYER_GRAPHIC | LAYER_TEXT

record text_descriptor =
  t_value :: string
  t_font :: string
  t_size :: real
  t_color :: string
  t_lineHeight :: real
  t_spacing :: real

record layer =
  l_type :: layer_type
  l_width :: real
  l_height :: real
  l_source :: "addr option"
  l_mask :: "addr option"
  l_maskX :: real
  l_maskY :: real
  l_effects :: effects
  l_filters :: filters
  l_text :: text_descriptor

datatype sprite_bitmap = CanvasElement addr | OtherBitmap

record sprite =
  s_bitmap :: sprite_bitmap
  s_width :: real
  s_height :: real
  s_invalidated :: bool

text \<open>
  What the render service takes from its collaborators: the geometry helpers
  of \<^verbatim>\<open>@/utils/image-math\<close>, the font service and the platform's canvas.
\<close>

record env =
  getRotatedSize :: "layer \<Rightarrow> real \<Rightarrow> real \<times> real"
  getRotationCenter :: "real \<Rightarrow> real \<Rightarrow> real \<Rightarrow> real \<Rightarrow> real \<times> real"
  toDimension :: "real \<Rightarrow> nat"
  getImageData :: "surface \<Rightarrow> real list"
  storeChannel :: "real \<Rightarrow> real"
  loadGoogleFont :: "string \<Rightarrow> bool"
  measureDescent :: "real \<Rightarrow> string \<Rightarrow> real"

text \<open>
  The state renderEffectsForLayer works on: the canvases, the layer, the
  sprite that getSpriteForLayer finds for it (if any) and the fonts requested
  from the font service.
\<close>

record world =
  heap :: store
  nextAddr :: addr
  wlayer :: layer
  wsprite :: "sprite option"
  fontRequests :: "string list"

datatype js_error = TypeError


section \<open>The render service\<close>

definition hasEffects :: "layer \<Rightarrow> bool" where
  "hasEffects l =
     (if l_mask l \<noteq> None then True
      else rotation (l_effects l) \<noteq> 0 \<or> mirrorX (l_effects l) \<or> mirrorY (l_effects l))"

definition hasFilters :: "layer \<Rightarrow> bool" where
  "hasFilters l = (levels (l_filters l) \<noteq> 0 \<or> contrast (l_filters l) \<noteq> 0)"

text \<open>
  \<^verbatim>\<open>String.split\<close> at a separator character; a string is the list of its
  characters.
\<close>

fun split_at :: "char \<Rightarrow> string \<Rightarrow> string list" where
  "split_at sep [] = [[]]"
| "split_at sep (c # cs) =
     (if c = sep then [] # split_at sep cs
      else (case split_at sep cs of
              [] \<Rightarrow> [[c]]
            | line # rest \<Rightarrow> (c # line) # rest))"

definition newline :: char where
  "newline = CHR 0x0A"

text \<open>The inner forEach of renderText: one letter at a time.\<close>

fun fillLetters :: "addr \<Rightarrow> string \<Rightarrow> nat \<Rightarrow> real \<Rightarrow> real \<Rightarrow> store \<Rightarrow> store" where
  "fillLetters a [] letterIndex spacing ty hp = hp"
| "fillLetters a (c # cs) letterIndex spacing ty hp =
     fillLetters a cs (Suc letterIndex) spacing ty
       (emit a (FillText [c] (of_nat letterIndex * spacing) ty) hp)"

text \<open>The outer forEach of renderText: one line at a time.\<close>

fun fillLines :: "addr \<Rightarrow> string list \<Rightarrow> nat \<Rightarrow> real \<Rightarrow> real \<Rightarrow> store \<Rightarrow> store" where
  "fillLines a [] lineIndex lineHeight spacing hp = hp"
| "fillLines a (line # rest) lineIndex lineHeight spacing hp =
     (let ty = lineHeight + (of_nat lineIndex * lineHeight);
          hp' = (if spacing = 0 then emit a (FillText line 0 ty) hp
                 else fillLetters a line 0 spacing ty hp)
      in fillLines a rest (Suc lineIndex) lineHeight spacing hp')"

definition renderText :: "env \<Rightarrow> world \<Rightarrow> js_error + world" where
  "renderText ev w =
     (let txt = l_text (wlayer w) in
      if t_value txt = [] then Inr w
      else
        (let font = (if loadGoogleFont ev (t_font txt) then t_font txt else ''Arial'');
             w1 = w\<lparr> fontRequests := fontRequests w @ [t_font txt] \<rparr>
         in case l_source (wlayer w) of
              None \<Rightarrow> Inl TypeError
            | Some src \<Rightarrow>
                (let hp1 = emit src (ClearRect 0 0 (of_nat (swidth (heap w1 src)))
                                       (of_nat (sheight (heap w1 src)))) (heap w1);
                     hp2 = emit src (SetFont (t_size txt) font) hp1;
                     hp3 = emit src (SetFillStyle (t_color txt)) hp2;
                     textLines = split_at newline (t_value txt);
                     lineHeight = (if t_lineHeight txt = 0
                                   then t_size txt + \<bar>measureDescent ev (t_size txt) font\<bar>
                                   else t_lineHeight txt)
                 in Inr (w1\<lparr> heap := fillLines src textLines 0 lineHeight (t_spacing txt) hp3 \<rparr>))))"

definition renderMask :: "layer \<Rightarrow> addr \<Rightarrow> real \<Rightarrow> real \<Rightarrow> store \<Rightarrow> store" where
  "renderMask l ctx tX tY hp =
     (case l_mask l of
        None \<Rightarrow> hp
      | Some m \<Rightarrow>
          (let hp1 = emit ctx Save hp;
               hp2 = emit ctx (Translate tX tY) hp1;
               hp3 = emit ctx (SetCompositeOperation ''destination-in'') hp2;
               hp4 = drawImage ctx m (l_maskX l) (l_maskY l) hp3
           in emit ctx Restore hp4))"

definition renderTransformedSource ::
  "env \<Rightarrow> layer \<Rightarrow> addr \<Rightarrow> addr \<Rightarrow> real \<Rightarrow> real \<Rightarrow> effects \<Rightarrow> store \<Rightarrow> store" where
  "renderTransformedSource ev l ctx sourceBitmap width height e hp =
     (let rotate = (js_rem (rotation e) 360 \<noteq> 0);
          targetX0 = (if mirrorX e then - width else 0);
          targetY0 = (if mirrorY e then - height else 0);
          xScale = (if mirrorX e then - 1 else 1);
          yScale = (if mirrorY e then - 1 else 1);
          hp1 = emit ctx Save hp;
          hp2 = emit ctx (Scale xScale yScale) hp1;
          (hp3, targetX, targetY) =
            (if rotate then
               (let (cx, cy) = getRotationCenter ev 0 0
                                 (if mirrorX e then - width else width)
                                 (if mirrorY e then - height else height);
                    h1 = emit ctx (Translate cx cy) hp2;
                    h2 = emit ctx (Rotate (rotation e)) h1;
                    h3 = emit ctx (Translate (- cx) (- cy)) h2
                in (h3, cx - l_width l * HALF, cy - l_height l * HALF))
             else (hp2, targetX0, targetY0));
          hp4 = drawImage ctx sourceBitmap targetX targetY hp3;
          hp5 = renderMask l ctx targetX targetY hp4
      in emit ctx Restore hp5)"

definition renderFilters :: "env \<Rightarrow> addr \<Rightarrow> layer \<Rightarrow> store \<Rightarrow> store" where
  "renderFilters ev source l hp =
     (let width = swidth (hp source);
          height = sheight (hp source);
          data = getImageData ev (hp source);
          data' = renderFiltersData (storeChannel ev) (l_filters l) width height data;
          hp1 = emit source (ClearRect 0 0 (of_nat width) (of_nat height)) hp
      in emit source (PutImageData data' 0 0) hp1)"

text \<open>The filter stage of the pipeline: renderFilters behind its guard.\<close>

definition filterStage :: "env \<Rightarrow> addr \<Rightarrow> layer \<Rightarrow> store \<Rightarrow> store" where
  "filterStage ev cvs l hp = (if hasFilters l then renderFilters ev cvs l hp else hp)"

text \<open>
  The working canvas: the sprite's bitmap when that is a canvas (assigning its
  width and height clears it), a new canvas otherwise.  At the end
  \<^verbatim>\<open>sprite.setBitmap( cvs, width, height )\<close> and \<^verbatim>\<open>sprite.invalidate()\<close>, which
  belong to the canvas library, set the sprite's bitmap and bounds and mark it
  for redrawing.
\<close>

definition workingCanvas :: "env \<Rightarrow> sprite \<Rightarrow> real \<Rightarrow> real \<Rightarrow> world \<Rightarrow> addr \<times> world" where
  "workingCanvas ev sp width height w =
     (case s_bitmap sp of
        CanvasElement a \<Rightarrow>
          (a, w\<lparr> heap := (heap w)(a := Surface (toDimension ev width) (toDimension ev height) []) \<rparr>)
      | OtherBitmap \<Rightarrow>
          (nextAddr w,
           w\<lparr> heap := (heap w)(nextAddr w := Surface (toDimension ev width) (toDimension ev height) []),
              nextAddr := Suc (nextAddr w) \<rparr>))"

definition renderEffectsForLayer :: "env \<Rightarrow> world \<Rightarrow> js_error + world" where
  "renderEffectsForLayer ev w =
     (case wsprite w of
        None \<Rightarrow> Inr w
      | Some sp \<Rightarrow>
          (case l_source (wlayer w) of
             None \<Rightarrow> Inr w
           | Some src \<Rightarrow>
               (let l = wlayer w;
                    (width, height) = getRotatedSize ev l (rotation (l_effects l));
                    (cvs, w1) = workingCanvas ev sp width height w
                in case (if l_type l = LAYER_TEXT then renderText ev w1 else Inr w1) of
                     Inl err \<Rightarrow> Inl err
                   | Inr w2 \<Rightarrow>
                       (let hp3 = (if hasEffects l
                                   then renderTransformedSource ev l cvs src width height
                                          (l_effects l) (heap w2)
                                   else drawImage cvs src 0 0 (heap w2));
                            hp4 = filterStage ev cvs l hp3
                        in Inr (w2\<lparr> heap := hp4,
                                    wsprite := Some (sp\<lparr> s_bitmap := CanvasElement cvs,
                                                         s_width := width,
                                                         s_height := height,
                                                         s_invalidated := True \<rparr>) \<rparr>)))))"


section \<open>The zoomable canvas\<close>

record viewport =
  vp_left :: real
  vp_top :: real
  vp_width :: real
  vp_height :: real

text \<open>
  The fields of the canvas that setDocumentScale and handleInteraction use.
  \<open>children\<close> is in z-order, the first child at the bottom; the \<^verbatim>\<open>last\<close> link
  of a child leads to the child before it.  \<open>coordinate\<close> is what
  \<^verbatim>\<open>getCoordinate()\<close> returns.
\<close>

record 'c canvas =
  c_width :: real
  c_height :: real
  c_viewport :: "viewport option"
  zoomFactor :: real
  documentScale :: jsnum
  children :: "'c list"
  coordinate :: "real \<times> real"
  contextScales :: "real list"
  preventDefaults :: bool
  invalidated :: bool

definition setZoomFactor :: "real \<Rightarrow> 'c canvas \<Rightarrow> 'c canvas" where
  "setZoomFactor scale cv =
     cv\<lparr> zoomFactor := scale, contextScales := contextScales cv @ [scale], invalidated := True \<rparr>"

text \<open>The scroll ratio of one axis: \<^verbatim>\<open>( left / scrollWidth ) || .5\<close>.\<close>

definition scrollRatio :: "real \<Rightarrow> real \<Rightarrow> jsnum" where
  "scrollRatio offset scrollSize = js_or (js_div offset scrollSize) (Num (1 / 2))"

text \<open>
  \<open>setDimensions\<close> and \<open>panViewport\<close> are methods of the canvas library and are
  parameters.  The result holds the canvas and the two arguments of the call
  of \<open>panViewport\<close>.
\<close>

definition setDocumentScale ::
  "(real \<Rightarrow> real \<Rightarrow> 'c canvas \<Rightarrow> 'c canvas) \<Rightarrow> (jsnum \<Rightarrow> jsnum \<Rightarrow> 'c canvas \<Rightarrow> 'c canvas) \<Rightarrow>
   real \<Rightarrow> real \<Rightarrow> real \<Rightarrow> real \<Rightarrow> real option \<Rightarrow> 'c canvas \<Rightarrow>
   js_error + ('c canvas \<times> jsnum \<times> jsnum)" where
  "setDocumentScale setDimensions panViewport targetWidth targetHeight scale zoom activeDocument cv =
     (case c_viewport cv of
        None \<Rightarrow> Inl TypeError
      | Some vp \<Rightarrow>
          (let scrollWidth = c_width cv - vp_width vp;
               scrollHeight = c_height cv - vp_height vp;
               ratioX = scrollRatio (vp_left vp) scrollWidth;
               ratioY = scrollRatio (vp_top vp) scrollHeight;
               cv1 = setDimensions targetWidth targetHeight cv;
               cv2 = setZoomFactor (scale * zoom) cv1;
               scrollWidth' = c_width cv2 - vp_width vp;
               scrollHeight' = c_height cv2 - vp_height vp;
               px = js_mul scrollWidth' ratioX;
               py = js_mul scrollHeight' ratioY;
               cv3 = panViewport px py cv2;
               cv4 = (case activeDocument of
                        None \<Rightarrow> cv3
                      | Some docWidth \<Rightarrow> cv3\<lparr> documentScale := js_div docWidth (c_width cv3) \<rparr>)
           in Inr (cv4, px, py)))"

text \<open>
  An event as handleInteraction reads it.  A touch is its page coordinate
  \<open>(pageX, pageY)\<close>.
\<close>

record event =
  e_type :: string
  e_offsetX :: real
  e_offsetY :: real
  e_deltaX :: real
  e_deltaY :: real
  e_touches :: "(real \<times> real) list"
  e_changedTouches :: "(real \<times> real) list"

text \<open>
  \<^verbatim>\<open>theChild.handleInteraction( x, y, aEvent )\<close> belongs to the sprites: it
  may change their state \<open>'s\<close> and reports whether the event was handled.  A
  call is recorded with its receiver, its coordinate and what it reported.
\<close>

type_synonym ('c, 's) handler = "'c \<Rightarrow> jsnum \<Rightarrow> jsnum \<Rightarrow> event \<Rightarrow> 's \<Rightarrow> bool \<times> 's"
type_synonym 'c call = "'c \<times> jsnum \<times> jsnum \<times> bool"

text \<open>The loop of the touch branch, which has no break.\<close>

fun dispatchTouch ::
  "('c, 's) handler \<Rightarrow> jsnum \<Rightarrow> jsnum \<Rightarrow> event \<Rightarrow> 'c list \<Rightarrow> 's \<Rightarrow> 'c call list \<times> 's" where
  "dispatchTouch h px py e [] s = ([], s)"
| "dispatchTouch h px py e (c # cs) s =
     (let (found, s1) = h c px py e s;
          (tr, s2) = dispatchTouch h px py e cs s1
      in ((c, px, py, found) # tr, s2))"

text \<open>The loop of the mouse branch, which breaks when a child reports the event handled.\<close>

fun dispatchMouse ::
  "('c, 's) handler \<Rightarrow> jsnum \<Rightarrow> jsnum \<Rightarrow> event \<Rightarrow> 'c list \<Rightarrow> 's \<Rightarrow> 'c call list \<times> 's" where
  "dispatchMouse h px py e [] s = ([], s)"
| "dispatchMouse h px py e (c # cs) s =
     (let (found, s1) = h c px py e s
      in if found then ([(c, px, py, True)], s1)
         else (let (tr, s2) = dispatchMouse h px py e cs s1
               in ((c, px, py, False) # tr, s2)))"

definition touchCoordinate :: "'c canvas \<Rightarrow> event \<Rightarrow> jsnum \<times> jsnum" where
  "touchCoordinate cv e =
     (let touches = (if length (e_touches e) > 0 then e_touches e else e_changedTouches e)
      in case touches of
           [] \<Rightarrow> (Num 0, Num 0)
         | (pageX, pageY) # _ \<Rightarrow>
             (let (ox, oy) = (case c_viewport cv of
                                None \<Rightarrow> coordinate cv
                              | Some vp \<Rightarrow> (fst (coordinate cv) - vp_left vp,
                                            snd (coordinate cv) - vp_top vp))
              in (js_div (pageX - ox) (zoomFactor cv), js_div (pageY - oy) (zoomFactor cv))))"

definition mouseCoordinate :: "'c canvas \<Rightarrow> event \<Rightarrow> jsnum \<times> jsnum" where
  "mouseCoordinate cv e =
     (let (ox, oy) = (case c_viewport cv of
                        None \<Rightarrow> (e_offsetX e, e_offsetY e)
                      | Some vp \<Rightarrow> (e_offsetX e + vp_left vp, e_offsetY e + vp_top vp))
      in (js_div ox (zoomFactor cv), js_div oy (zoomFactor cv)))"

definition WHEEL_SPEED :: real where
  "WHEEL_SPEED = 20"

definition wheelSpeed :: "real \<Rightarrow> real" where
  "wheelSpeed delta = (if delta = 0 then 0 else if delta > 0 then WHEEL_SPEED else - WHEEL_SPEED)"

text \<open>
  The result of handleInteraction: the calls made to the children in the
  order they were made, the canvas, the state of the sprites, and whether the
  event's default was prevented.
\<close>

definition handleInteraction ::
  "(jsnum \<Rightarrow> jsnum \<Rightarrow> 'c canvas \<Rightarrow> 'c canvas) \<Rightarrow> ('c, 's) handler \<Rightarrow> 'c canvas \<Rightarrow> event \<Rightarrow> 's \<Rightarrow>
   js_error + ('c call list \<times> 'c canvas \<times> 's \<times> bool)" where
  "handleInteraction panViewport h cv e s =
     (let switched =
            (if length (children cv) > 0 then
               (if e_type e = ''mousedown'' \<or> e_type e = ''mousemove'' \<or> e_type e = ''mouseup'' then
                  (let (px, py) = mouseCoordinate cv e;
                       (tr, s') = dispatchMouse h px py e (rev (children cv)) s
                   in Inr (tr, cv, s'))
                else if e_type e = ''wheel'' then
                  (case c_viewport cv of
                     None \<Rightarrow> Inl TypeError
                   | Some vp \<Rightarrow>
                       Inr ([], panViewport (Num (vp_left vp + wheelSpeed (e_deltaX e)))
                                  (Num (vp_top vp + wheelSpeed (e_deltaY e))) cv, s))
                else
                  (let (px, py) = touchCoordinate cv e;
                       (tr, s') = dispatchTouch h px py e (rev (children cv)) s
                   in Inr (tr, cv, s')))
             else Inr ([], cv, s))
      in case switched of
           Inl err \<Rightarrow> Inl err
         | Inr (tr, cv', s') \<Rightarrow> Inr (tr, cv'\<lparr> invalidated := True \<rparr>, s', preventDefaults cv))"


text \<open>The parts of a recorded call.\<close>

definition callChild :: "'c call \<Rightarrow> 'c" where
  "callChild cl = fst cl"

definition callCoordinate :: "'c call \<Rightarrow> jsnum \<times> jsnum" where
  "callCoordinate cl = (fst (snd cl), fst (snd (snd cl)))"

definition callFound :: "'c call \<Rightarrow> bool" where
  "callFound cl = snd (snd (snd cl))"


section \<open>Example collaborators and inputs\<close>

text \<open>
  Stand-ins for the collaborators, used where a statement is evaluated at a
  concrete input: a canvas library whose setDimensions takes the target size
  as the size of the canvas and whose panViewport leaves the canvas as it is,
  and sprites of which exactly one handles an event.
\<close>

definition storeDimensions :: "real \<Rightarrow> real \<Rightarrow> 'c canvas \<Rightarrow> 'c canvas" where
  "storeDimensions w h cv = cv\<lparr> c_width := w, c_height := h \<rparr>"

definition noPan :: "jsnum \<Rightarrow> jsnum \<Rightarrow> 'c canvas \<Rightarrow> 'c canvas" where
  "noPan px py cv = cv"

definition handledByChild :: "nat \<Rightarrow> (nat, unit) handler" where
  "handledByChild target c px py e s = (c = target, s)"

text \<open>
  A canvas of 200 by 200 with a viewport of 100 by 100 that is not scrolled,
  at zoom factor 1, with three sprites.
\<close>

definition exampleCanvas :: "nat canvas" where
  "exampleCanvas =
     \<lparr> c_width = 200, c_height = 200,
       c_viewport = Some \<lparr> vp_left = 0, vp_top = 0, vp_width = 100, vp_height = 100 \<rparr>,
       zoomFactor = 1, documentScale = Num 1, children = [1, 2, 3], coordinate = (0, 0),
       contextScales = [], preventDefaults = False, invalidated = False \<rparr>"

definition exampleMouseEvent :: event where
  "exampleMouseEvent =
     \<lparr> e_type = ''mousedown'', e_offsetX = 30, e_offsetY = 40, e_deltaX = 0, e_deltaY = 0,
       e_touches = [], e_changedTouches = [] \<rparr>"

definition exampleTouchEvent :: event where
  "exampleTouchEvent =
     \<lparr> e_type = ''touchmove'', e_offsetX = 0, e_offsetY = 0, e_deltaX = 0, e_deltaY = 0,
       e_touches = [(10, 10), (50, 50)], e_changedTouches = [] \<rparr>"

text \<open>
  Geometry helpers that give the bounding box of the rotated layer and the
  centre of a rectangle, a platform that keeps every number it is given, and
  a font service that finds every font.
\<close>

definition exampleEnv :: env where
  "exampleEnv =
     \<lparr> getRotatedSize = (\<lambda>l r. (\<bar>l_width l * cos r\<bar> + \<bar>l_height l * sin r\<bar>,
                                \<bar>l_width l * sin r\<bar> + \<bar>l_height l * cos r\<bar>)),
       getRotationCenter = (\<lambda>rl rt rw rh. (rl + rw / 2, rt + rh / 2)),
       toDimension = (\<lambda>v. nat \<lfloor>v\<rfloor>),
       getImageData = (\<lambda>sf. replicate (4 * swidth sf * sheight sf) 0),
       storeChannel = (\<lambda>v. v),
       loadGoogleFont = (\<lambda>f. True),
       measureDescent = (\<lambda>sz f. 0) \<rparr>"

definition emptyStore :: store where
  "emptyStore a = Surface 0 0 []"

text \<open>
  A text layer of 100 by 50 with an empty text, rotated by a quarter turn, and
  its sprite, which has no canvas of its own yet.
\<close>

definition exampleLayer :: layer where
  "exampleLayer =
     \<lparr> l_type = LAYER_TEXT, l_width = 100, l_height = 50,
       l_source = Some 0, l_mask = None, l_maskX = 0, l_maskY = 0,
       l_effects = \<lparr> rotation = pi / 2, mirrorX = False, mirrorY = False \<rparr>,
       l_filters = \<lparr> levels = 0, contrast = 0 \<rparr>,
       l_text = \<lparr> t_value = [], t_font = ''Roboto'', t_size = 12, t_color = ''red'',
                  t_lineHeight = 0, t_spacing = 0 \<rparr> \<rparr>"

definition exampleSprite :: sprite where
  "exampleSprite =
     \<lparr> s_bitmap = OtherBitmap, s_width = 100, s_height = 50, s_invalidated = False \<rparr>"

definition exampleWorld :: world where
  "exampleWorld =
     \<lparr> heap = emptyStore, nextAddr = 1, wlayer = exampleLayer,
       wsprite = Some exampleSprite, fontRequests = [] \<rparr>"


section \<open>Shared lemmas\<close>

lemma fold_invariant_id:
  assumes "\<And>a d. P d \<Longrightarrow> f a d = d" and "P d"
  shows "fold f xs d = d"
  using assms(2) by (induction xs) (simp_all add: assms(1))

lemma adjustLevel_zero: "adjustLevel store 0 i data = data"
  by (simp add: adjustLevel_def)

lemma adjustContrast_zero: "adjustContrast store 0 i data = data"
  by (simp add: adjustContrast_def)

lemma filterLoop_zero: "filterLoop store 0 0 width height data = data"
proof -
  have px: "\<And>i d. filterPixel store 0 0 i d = d"
    by (simp add: filterPixel_def adjustLevel_zero adjustContrast_zero)
  have inner: "\<And>x d. fold (\<lambda>y d'. filterPixel store 0 0 ((y * width + x) * 4) d') [0..<height] d = d"
    by (rule fold_invariant_id [where P = "\<lambda>d. True"]) (simp_all add: px)
  show ?thesis
    unfolding filterLoop_def
    by (rule fold_invariant_id [where P = "\<lambda>d. True"]) (simp_all only: inner)
qed

lemma update_fixed:
  assumes "\<forall>v\<in>set data. store v = v"
  shows "data[i := store (data ! i)] = data"
proof (cases "i < length data")
  case True
  then have "store (data ! i) = data ! i" using assms by simp
  then show ?thesis by simp
next
  case False
  then show ?thesis by (simp add: list_update_beyond)
qed

lemma adjustContrast_one:
  assumes "\<forall>v\<in>set data. store v = v"
  shows "adjustContrast store 1 i data = data"
  using assms by (simp add: adjustContrast_def MAX_8BIT_def HALF_def update_fixed)

lemma filterLoop_neutral:
  assumes "\<forall>v\<in>set data. store v = v"
  shows "filterLoop store 0 1 width height data = data"
proof -
  have px: "\<And>i d. (\<forall>v\<in>set d. store v = v) \<Longrightarrow> filterPixel store 0 1 i d = d"
    by (simp add: filterPixel_def adjustLevel_def adjustContrast_one)
  have inner: "\<And>x d. (\<forall>v\<in>set d. store v = v) \<Longrightarrow>
      fold (\<lambda>y d'. filterPixel store 0 1 ((y * width + x) * 4) d') [0..<height] d = d"
    by (rule fold_invariant_id [where P = "\<lambda>d. \<forall>v\<in>set d. store v = v"]) (simp_all add: px)
  show ?thesis
    unfolding filterLoop_def
  proof (rule fold_invariant_id [where P = "\<lambda>d. \<forall>v\<in>set d. store v = v"])
    fix x d
    assume "\<forall>v\<in>set d. store v = v"
    then show "fold (\<lambda>y d'. filterPixel store 0 1 ((y * width + x) * 4) d') [0..<height] d = d"
      by (rule inner)
  next
    show "\<forall>v\<in>set data. store v = v" by (rule assms)
  qed
qed

lemma contrastFactor_minus_one: "contrastFactor (- 1) = 0"
  by (simp add: contrastFactor_def)


lemma call_simps:
  "callChild (c, px, py, found) = c"
  "callCoordinate (c, px, py, found) = (px, py)"
  "callFound (c, px, py, found) = found"
  by (simp_all add: callChild_def callCoordinate_def callFound_def)

lemma scrollRatio_unscrolled: "scrollRatio 0 d = Num (1 / 2)"
  by (simp add: scrollRatio_def js_or_def js_div_def truthy_def)

lemma scrollRatio_scrolled: "off \<noteq> 0 \<Longrightarrow> d \<noteq> 0 \<Longrightarrow> scrollRatio off d = Num (off / d)"
  by (simp add: scrollRatio_def js_or_def js_div_def truthy_def)

lemma setZoomFactor_size: "c_width (setZoomFactor z cv) = c_width cv \<and> c_height (setZoomFactor z cv) = c_height cv"
  by (simp add: setZoomFactor_def)

lemma dispatchMouse_trace:
  "dispatchMouse h px py e cs s = (tr, s') \<Longrightarrow>
     (\<forall>cl\<in>set tr. callCoordinate cl = (px, py))
     \<and> map callChild tr = take (length tr) cs
     \<and> (\<forall>cl\<in>set (butlast tr). \<not> callFound cl)
     \<and> (length tr < length cs \<longrightarrow> callFound (last tr))
     \<and> (cs \<noteq> [] \<longrightarrow> tr \<noteq> [])"
proof (induction cs arbitrary: s tr s')
  case Nil
  then show ?case by simp
next
  case (Cons c cs)
  obtain found s1 where hc: "h c px py e s = (found, s1)" by (cases "h c px py e s")
  show ?case
  proof (cases found)
    case True
    with Cons.prems hc show ?thesis
      by (auto simp: call_simps)
  next
    case False
    obtain tr2 s2 where rec: "dispatchMouse h px py e cs s1 = (tr2, s2)"
      by (cases "dispatchMouse h px py e cs s1")
    have tr: "tr = (c, px, py, False) # tr2"
      using Cons.prems hc False rec by simp
    note ih = Cons.IH [OF rec]
    show ?thesis
    proof (cases tr2)
      case Nil
      with ih tr show ?thesis
        by (auto simp: call_simps)
    next
      case (Cons a list)
      with ih tr show ?thesis
        by (auto simp: call_simps)
    qed
  qed
qed

lemma dispatchMouse_stateless:
  assumes "\<And>c s. h c px py e s = (p c, s)"
  shows "map callChild (fst (dispatchMouse h px py e cs s))
           = takeWhile (\<lambda>c. \<not> p c) cs @ take 1 (dropWhile (\<lambda>c. \<not> p c) cs)"
proof (induction cs arbitrary: s)
  case Nil
  then show ?case by simp
next
  case (Cons c cs)
  obtain tr2 s2 where rec: "dispatchMouse h px py e cs s = (tr2, s2)"
    by (cases "dispatchMouse h px py e cs s")
  from Cons.IH [of s] rec
  have "map callChild tr2 = takeWhile (\<lambda>c. \<not> p c) cs @ take 1 (dropWhile (\<lambda>c. \<not> p c) cs)"
    by simp
  with rec show ?case
    by (simp add: assms call_simps)
qed

lemma dispatchTouch_trace:
  "dispatchTouch h px py e cs s = (tr, s') \<Longrightarrow>
     (\<forall>cl\<in>set tr. callCoordinate cl = (px, py)) \<and> map callChild tr = cs"
proof (induction cs arbitrary: s tr s')
  case Nil
  then show ?case by simp
next
  case (Cons c cs)
  obtain found s1 where hc: "h c px py e s = (found, s1)" by (cases "h c px py e s")
  obtain tr2 s2 where rec: "dispatchTouch h px py e cs s1 = (tr2, s2)"
    by (cases "dispatchTouch h px py e cs s1")
  have tr: "tr = (c, px, py, found) # tr2"
    using Cons.prems hc rec by simp
  with Cons.IH [OF rec] show ?case
    by (auto simp: call_simps)
qed

lemma renderText_frame:
  "renderText ev w = Inr w' \<Longrightarrow> wlayer w' = wlayer w \<and> wsprite w' = wsprite w"
  by (auto simp: renderText_def Let_def split: if_splits option.splits)

lemma renderText_source_present:
  "l_source (wlayer w) = Some src \<Longrightarrow> \<exists>w'. renderText ev w = Inr w'"
  by (auto simp: renderText_def Let_def split: if_splits option.splits)

lemma workingCanvas_frame:
  "workingCanvas ev sp width height w = (cvs, w1) \<Longrightarrow> wlayer w1 = wlayer w \<and> wsprite w1 = wsprite w"
  by (auto simp: workingCanvas_def split: sprite_bitmap.splits)

lemma js_trunc_of_int: "js_trunc (of_int k) = k"
  by (simp add: js_trunc_def)

lemma js_rem_zero_iff:
  assumes "m \<noteq> 0"
  shows "js_rem a m = 0 \<longleftrightarrow> (\<exists>k::int. a = m * of_int k)"
proof
  assume "js_rem a m = 0"
  then have "a = m * of_int (js_trunc (a / m))" by (simp add: js_rem_def)
  then show "\<exists>k::int. a = m * of_int k" ..
next
  assume "\<exists>k::int. a = m * of_int k"
  then obtain k :: int where "a = m * of_int k" ..
  with assms show "js_rem a m = 0"
    by (simp add: js_rem_def js_trunc_of_int)
qed

lemma js_rem_full_turn: "js_rem (2 * pi) 360 = 2 * pi"
proof -
  have "0 \<le> 2 * pi / 360" by simp
  moreover have "2 * pi / 360 < 1" using pi_less_4 by simp
  ultimately have "\<lfloor>2 * pi / 360\<rfloor> = 0" by linarith
  then show ?thesis by (simp add: js_rem_def js_trunc_def)
qed

text \<open>Bounds on \<open>pi\<close> from the Taylor polynomials of sine and cosine.\<close>

lemma sum_below_5: "(\<Sum>m<5. g m) = g 0 + g 1 + g 2 + g 3 + g (4::nat)" for g :: "nat \<Rightarrow> real"
  by (simp add: numeral_eq_Suc)

lemma sum_below_8: "(\<Sum>m<8. g m) = g 0 + g 1 + g 2 + g 3 + g 4 + g 5 + g 6 + g (7::nat)" for g :: "nat \<Rightarrow> real"
  by (simp add: numeral_eq_Suc)

lemma sin_coeff_values: "sin_coeff (Suc 0) = 1" "sin_coeff 2 = 0" "sin_coeff 3 = - 1 / 6" "sin_coeff 4 = 0"
  by (simp_all add: sin_coeff_def fact_numeral)

lemma cos_coeff_values: "cos_coeff (Suc 0) = 0" "cos_coeff 2 = - 1 / 2" "cos_coeff 3 = 0" "cos_coeff 4 = 1 / 24"
  "cos_coeff 5 = 0" "cos_coeff 6 = - 1 / 720" "cos_coeff 7 = 0"
  by (simp_all add: cos_coeff_def fact_numeral)

lemma pi_gt_312: "312 / 100 < pi"
proof -
  let ?x = "13 / 25 :: real"
  have "\<bar>sin ?x - (\<Sum>m<5. sin_coeff m * ?x ^ m)\<bar> \<le> inverse (fact 5) * \<bar>?x\<bar> ^ 5"
    by (rule Maclaurin_sin_bound)
  then have "sin ?x \<le> (\<Sum>m<5. sin_coeff m * ?x ^ m) + inverse (fact 5) * \<bar>?x\<bar> ^ 5"
    by linarith
  also have "\<dots> < 1 / 2"
    by (simp add: sum_below_5 sin_coeff_values fact_numeral power_numeral_reduce)
  finally have "sin ?x < sin (pi / 6)" by (simp add: sin_30)
  moreover have "- (pi / 2) \<le> ?x" "?x \<le> pi / 2" "- (pi / 2) \<le> pi / 6" "pi / 6 \<le> pi / 2"
    using pi_ge_two by simp_all
  ultimately have "?x < pi / 6"
    using sin_mono_less_eq [of ?x "pi / 6"] by blast
  then show ?thesis by simp
qed

lemma pi_lt_315: "pi < 315 / 100"
proof -
  let ?y = "21 / 20 :: real"
  obtain t where "cos ?y = (\<Sum>m<8. cos_coeff m * ?y ^ m) + (cos (t + 1/2 * real 8 * pi) / fact 8) * ?y ^ 8"
    using Maclaurin_cos_expansion [of ?y 8] by blast
  moreover have "(cos (t + 1/2 * real 8 * pi) / fact 8) * ?y ^ 8 \<le> (1 / fact 8) * ?y ^ 8"
    by (intro mult_right_mono divide_right_mono) simp_all
  ultimately have "cos ?y \<le> (\<Sum>m<8. cos_coeff m * ?y ^ m) + (1 / fact 8) * ?y ^ 8"
    by linarith
  also have "\<dots> < 1 / 2"
    by (simp add: sum_below_8 cos_coeff_values fact_numeral power_numeral_reduce)
  finally have "cos ?y < cos (pi / 3)" by (simp add: cos_60)
  moreover have "0 \<le> ?y" "?y \<le> pi" "0 \<le> pi / 3" "pi / 3 \<le> pi"
    using pi_ge_two by simp_all
  ultimately have "pi / 3 < ?y"
    using cos_mono_less_eq [of ?y "pi / 3"] by blast
  then show ?thesis by simp
qed

lemma js_rem_360_full_turn: "js_rem 360 (2 * pi) = 360 - 114 * pi"
proof -
  have "57 \<le> 360 / (2 * pi)"
    using pi_lt_315 pi_gt_zero by (simp add: field_simps)
  moreover have "360 / (2 * pi) < 58"
    using pi_gt_312 pi_gt_zero by (simp add: field_simps)
  ultimately have "\<lfloor>360 / (2 * pi)\<rfloor> = 57" by linarith
  moreover have "0 \<le> 360 / (2 * pi)" by simp
  ultimately show ?thesis by (simp add: js_rem_def js_trunc_def)
qed

lemma js_rem_360_full_turn_nonzero: "js_rem 360 (2 * pi) \<noteq> 0"
  using pi_lt_315 by (simp add: js_rem_360_full_turn)

lemma content_emit:
  "content (emit a opn hp b) = (if b = a then content (hp a) @ [opn] else content (hp b))"
  by (simp add: emit_def)

lemma content_drawImage:
  "content (drawImage a img tx ty hp b)
     = (if b = a then content (hp a) @ [DrawImage (hp img) tx ty] else content (hp b))"
  by (simp add: drawImage_def content_emit)

lemma renderMask_keeps:
  "x \<in> set (content (hp a)) \<Longrightarrow> x \<in> set (content (renderMask l ctx tX tY hp a))"
  by (auto simp: renderMask_def content_emit content_drawImage Let_def split: option.splits)


section \<open>The storage form of effects\<close>

text \<open>
  C6.  Serialising an effects record and deserialising the result gives the
  record back: rotation, mirrorX and mirrorY all survive the round trip
  through the stored form.
\<close>

theorem serialize_deserialize_roundtrip:
  "deserialize (serialize e) = e"
  by (simp add: deserialize_def serialize_def create_def)


section \<open>The pixel filters\<close>

text \<open>
  C2.  At the raw contrast value \<open>-1\<close> the local constant \<^verbatim>\<open>contrast\<close> is
  \<open>0\<close>, the guard of step 2 fails and renderFilters returns every pixel as it
  was, for every buffer and every size; on the pixel \<open>(100, 100, 100, 255)\<close>
  the contrast formula would give \<open>127.5\<close> for the three colour channels.
\<close>

theorem contrast_minus_one_not_applied:
  "renderFiltersData store \<lparr> levels = 0, contrast = - 1 \<rparr> width height data = data
   \<and> renderFiltersData store \<lparr> levels = 0, contrast = - 1 \<rparr> 1 1 [100, 100, 100, 255]
       = [100, 100, 100, 255]
   \<and> ((100 / MAX_8BIT - HALF) * contrastFactor (- 1) + HALF) * MAX_8BIT = 255 / 2"
  by (simp add: renderFiltersData_def contrastFactor_minus_one filterLoop_zero MAX_8BIT_def HALF_def)

text \<open>
  C4.  With levels \<open>0\<close> and contrast \<open>0\<close> the filter stage does not touch
  the canvas at all: the guard hasFilters skips renderFilters.  Were
  renderFilters run all the same, it would write back every byte it read,
  provided that storing a byte of the buffer gives that byte.
\<close>

theorem filter_stage_noop:
  "filterStage ev cvs (l\<lparr> l_filters := \<lparr> levels = 0, contrast = 0 \<rparr> \<rparr>) hp = hp
   \<and> ((\<forall>v\<in>set data. store v = v) \<longrightarrow>
        renderFiltersData store \<lparr> levels = 0, contrast = 0 \<rparr> width height data = data)"
  by (simp add: filterStage_def hasFilters_def renderFiltersData_def contrastFactor_def
      filterLoop_neutral)

theorem filter_stage_noop_witness:
  "filterStage exampleEnv 0 (exampleLayer\<lparr> l_filters := \<lparr> levels = 0, contrast = 0 \<rparr> \<rparr>) emptyStore
     = emptyStore
   \<and> renderFiltersData (\<lambda>v. v) \<lparr> levels = 0, contrast = 0 \<rparr> 1 1 [10, 20, 30, 255]
       = [10, 20, 30, 255]"
  using filter_stage_noop [where data = "[10, 20, 30, 255]" and store = "\<lambda>v. v"
      and width = 1 and height = 1 and ev = exampleEnv and cvs = 0 and l = exampleLayer
      and hp = emptyStore]
  by simp

text \<open>
  C5.  With the raw levels value \<open>1\<close> step 1 hands to the pixel buffer the
  channel times \<open>2 * 2\<close>, whatever the channel is, and leaves alpha alone;
  nothing in the arithmetic clamps.  With contrast \<open>0\<close> and a buffer that
  stores what it is given, the channel value \<open>100\<close> comes out as \<open>400\<close>.
\<close>

theorem levels_one_quadruples:
  "adjustLevel store (levels \<lparr> levels = 1, contrast = 0 \<rparr> * 2) 0 [cr, cg, cb, ca]
     = [store (cr * 2 * 2), store (cg * 2 * 2), store (cb * 2 * 2), ca]
   \<and> renderFiltersData (\<lambda>v. v) \<lparr> levels = 1, contrast = 0 \<rparr> 1 1 [100, 100, 100, 255]
       = [400, 400, 400, 255]"
  by (simp add: adjustLevel_def renderFiltersData_def filterLoop_def filterPixel_def
      adjustContrast_def contrastFactor_def MAX_8BIT_def HALF_def Let_def)


section \<open>Text rasterisation\<close>

text \<open>
  C10.  For a text layer whose text value is empty, renderText returns at
  once: no font is requested, the source canvas receives no command (it is
  not cleared) and nothing else changes.
\<close>

theorem renderText_empty_value:
  assumes "t_value (l_text (wlayer w)) = []"
  shows "renderText ev w = Inr w"
  using assms by (simp add: renderText_def)

theorem renderText_empty_value_witness:
  "t_value (l_text (wlayer exampleWorld)) = []
   \<and> renderText exampleEnv exampleWorld = Inr exampleWorld"
proof -
  have v: "t_value (l_text (wlayer exampleWorld)) = []"
    by (simp add: exampleWorld_def exampleLayer_def)
  from v renderText_empty_value [OF v, of exampleEnv] show ?thesis by simp
qed


section \<open>The layer effect pipeline\<close>

text \<open>
  C9.  renderEffectsForLayer always returns, and the layer it leaves is the
  layer it found: in particular the stored width and height are unchanged.
  When the layer has a sprite and a source, what changes is the sprite: its
  bitmap becomes the working canvas and its extent becomes the rotated size
  of the layer.
\<close>

theorem renderEffectsForLayer_keeps_layer:
  "\<exists>w'. renderEffectsForLayer ev w = Inr w'
     \<and> wlayer w' = wlayer w
     \<and> l_width (wlayer w') = l_width (wlayer w)
     \<and> l_height (wlayer w') = l_height (wlayer w)
     \<and> (\<forall>sp src. wsprite w = Some sp \<and> l_source (wlayer w) = Some src \<longrightarrow>
          (wsprite w' =
             Some (sp\<lparr> s_bitmap := CanvasElement (fst (workingCanvas ev sp
                          (fst (getRotatedSize ev (wlayer w) (rotation (l_effects (wlayer w)))))
                          (snd (getRotatedSize ev (wlayer w) (rotation (l_effects (wlayer w))))) w)),
                       s_width := fst (getRotatedSize ev (wlayer w) (rotation (l_effects (wlayer w)))),
                       s_height := snd (getRotatedSize ev (wlayer w) (rotation (l_effects (wlayer w)))),
                       s_invalidated := True \<rparr>)))"
proof (cases "wsprite w")
  case None
  then show ?thesis by (simp add: renderEffectsForLayer_def)
next
  case (Some sp)
  show ?thesis
  proof (cases "l_source (wlayer w)")
    case None
    with Some show ?thesis by (simp add: renderEffectsForLayer_def)
  next
    case (Some src)
    obtain width height where sz:
      "getRotatedSize ev (wlayer w) (rotation (l_effects (wlayer w))) = (width, height)"
      by (cases "getRotatedSize ev (wlayer w) (rotation (l_effects (wlayer w)))")
    obtain cvs w1 where wc: "workingCanvas ev sp width height w = (cvs, w1)"
      by (cases "workingCanvas ev sp width height w")
    have f1: "wlayer w1 = wlayer w" "wsprite w1 = wsprite w"
      using workingCanvas_frame [OF wc] by simp_all
    obtain w2 where w2: "(if l_type (wlayer w) = LAYER_TEXT then renderText ev w1 else Inr w1) = Inr w2"
      using renderText_source_present [of w1 src ev] f1 Some by (cases "l_type (wlayer w) = LAYER_TEXT") auto
    have f2: "wlayer w2 = wlayer w"
      using w2 renderText_frame [of ev w1 w2] f1 by (auto split: if_splits)
    show ?thesis
      using \<open>wsprite w = Some sp\<close> Some sz wc w2 f2
      by (simp add: renderEffectsForLayer_def Let_def)
  qed
qed

theorem renderEffectsForLayer_keeps_layer_witness:
  "wsprite exampleWorld = Some exampleSprite
   \<and> l_source (wlayer exampleWorld) = Some 0
   \<and> (\<exists>w'. renderEffectsForLayer exampleEnv exampleWorld = Inr w'
         \<and> l_width (wlayer w') = 100 \<and> l_height (wlayer w') = 50
         \<and> wsprite w' = Some \<lparr> s_bitmap = CanvasElement 1, s_width = 50, s_height = 100,
                                s_invalidated = True \<rparr>)"
proof -
  have sp: "wsprite exampleWorld = Some exampleSprite"
    by (simp add: exampleWorld_def)
  have src: "l_source (wlayer exampleWorld) = Some 0"
    by (simp add: exampleWorld_def exampleLayer_def)
  from renderEffectsForLayer_keeps_layer [of exampleEnv exampleWorld]
  obtain w' where r: "renderEffectsForLayer exampleEnv exampleWorld = Inr w'"
    and l: "wlayer w' = wlayer exampleWorld"
    and s: "\<forall>sp src. wsprite exampleWorld = Some sp \<and> l_source (wlayer exampleWorld) = Some src \<longrightarrow>
          (wsprite w' =
             Some (sp\<lparr> s_bitmap := CanvasElement (fst (workingCanvas exampleEnv sp
                          (fst (getRotatedSize exampleEnv (wlayer exampleWorld) (rotation (l_effects (wlayer exampleWorld)))))
                          (snd (getRotatedSize exampleEnv (wlayer exampleWorld) (rotation (l_effects (wlayer exampleWorld))))) exampleWorld)),
                       s_width := fst (getRotatedSize exampleEnv (wlayer exampleWorld) (rotation (l_effects (wlayer exampleWorld)))),
                       s_height := snd (getRotatedSize exampleEnv (wlayer exampleWorld) (rotation (l_effects (wlayer exampleWorld)))),
                       s_invalidated := True \<rparr>))"
    by blast
  from s sp src have "wsprite w' =
             Some (exampleSprite\<lparr> s_bitmap := CanvasElement (fst (workingCanvas exampleEnv exampleSprite
                          (fst (getRotatedSize exampleEnv (wlayer exampleWorld) (rotation (l_effects (wlayer exampleWorld)))))
                          (snd (getRotatedSize exampleEnv (wlayer exampleWorld) (rotation (l_effects (wlayer exampleWorld))))) exampleWorld)),
                       s_width := fst (getRotatedSize exampleEnv (wlayer exampleWorld) (rotation (l_effects (wlayer exampleWorld)))),
                       s_height := snd (getRotatedSize exampleEnv (wlayer exampleWorld) (rotation (l_effects (wlayer exampleWorld)))),
                       s_invalidated := True \<rparr>)"
    by blast
  then have s': "wsprite w' = Some \<lparr> s_bitmap = CanvasElement 1, s_width = 50, s_height = 100,
                                s_invalidated = True \<rparr>"
    by (simp add: exampleSprite_def workingCanvas_def exampleWorld_def exampleEnv_def exampleLayer_def)
  have "l_width (wlayer w') = 100 \<and> l_height (wlayer w') = 50"
    using l by (simp add: exampleWorld_def exampleLayer_def)
  with r s' sp src show ?thesis by blast
qed


section \<open>The transform renderer\<close>

text \<open>
  C1.  The guard of the rotation path is \<^verbatim>\<open>( rotation % 360 ) !== 0\<close>, while
  the rotation is an angle in radians.  At a rotation of one full turn,
  \<open>2 * pi\<close>, whose remainder modulo a full turn is zero, the guard holds and
  the canvas is rotated; at a rotation of \<open>360\<close> radians, whose remainder
  modulo a full turn is not zero, the guard fails and the source is drawn
  without any rotation.
\<close>

theorem rotation_guard_uses_360:
  "js_rem (2 * pi) (2 * pi) = 0
   \<and> js_rem (2 * pi) 360 \<noteq> 0
   \<and> Rotate (2 * pi) \<in> set (content (renderTransformedSource ev l cvs src width height
         \<lparr> rotation = 2 * pi, mirrorX = mx, mirrorY = my \<rparr> hp cvs))
   \<and> js_rem 360 (2 * pi) \<noteq> 0
   \<and> js_rem 360 360 = 0
   \<and> content (renderTransformedSource ev (l\<lparr> l_mask := None \<rparr>) 0 1 width height
         \<lparr> rotation = 360, mirrorX = False, mirrorY = False \<rparr> emptyStore 0)
       = [Save, Scale 1 1, DrawImage (Surface 0 0 []) 0 0, Restore]"
proof -
  have r0: "js_rem (2 * pi) (2 * pi) = 0"
    by (simp add: js_rem_def js_trunc_def)
  have r1: "js_rem (2 * pi) 360 \<noteq> 0"
    by (simp add: js_rem_full_turn)
  have r2: "Rotate (2 * pi) \<in> set (content (renderTransformedSource ev l cvs src width height
         \<lparr> rotation = 2 * pi, mirrorX = mx, mirrorY = my \<rparr> hp cvs))"
    using r1
    by (auto simp: renderTransformedSource_def Let_def content_emit content_drawImage
        split: prod.splits intro!: renderMask_keeps)
  have r3: "js_rem 360 360 = 0"
    by (simp add: js_rem_def js_trunc_def)
  have r4: "content (renderTransformedSource ev (l\<lparr> l_mask := None \<rparr>) 0 1 width height
         \<lparr> rotation = 360, mirrorX = False, mirrorY = False \<rparr> emptyStore 0)
       = [Save, Scale 1 1, DrawImage (Surface 0 0 []) 0 0, Restore]"
    using r3
    by (simp add: renderTransformedSource_def Let_def content_emit content_drawImage
        renderMask_def emptyStore_def emit_def drawImage_def)
  from r0 r1 r2 r3 r4 js_rem_360_full_turn_nonzero show ?thesis by blast
qed


section \<open>Rescaling the zoomable canvas\<close>

text \<open>
  C3, as stated, fails.  A canvas of 200 by 200 whose viewport of 100 by 100
  is not scrolled has a scroll range of 100 on both axes, which is not zero;
  rescaled to 400 by 400 it is panned to \<open>(150, 150)\<close>, half of the new
  scroll range, and not to the new scroll range times \<open>0 / 100\<close>.
\<close>

theorem setDocumentScale_unscrolled_counterexample:
  "setDocumentScale storeDimensions noPan 400 400 1 1 None exampleCanvas
     = Inr (exampleCanvas\<lparr> c_width := 400, c_height := 400, zoomFactor := 1,
                            contextScales := [1], invalidated := True \<rparr>,
            Num 150, Num 150)
   \<and> snd (projr (setDocumentScale storeDimensions noPan 400 400 1 1 None exampleCanvas))
       \<noteq> (js_mul (400 - 100) (js_div 0 (200 - 100)), js_mul (400 - 100) (js_div 0 (200 - 100)))"
  by (simp add: setDocumentScale_def exampleCanvas_def storeDimensions_def noPan_def
      setZoomFactor_def scrollRatio_def js_or_def js_div_def js_mul_def truthy_def Let_def)

text \<open>
  C3, amended.  setDocumentScale pans the viewport to the new scroll width
  times ratioX and the new scroll height times ratioY.  ratioX is
  \<open>0.5\<close> whenever the viewport's left offset is zero (the document is not
  scrolled on that axis), whatever the scroll range is, and it is the left
  offset divided by the old scroll width whenever neither of the two is zero;
  likewise for ratioY with the top offset and the old scroll height.
\<close>

theorem setDocumentScale_pan:
  assumes "c_viewport cv = Some vp"
  shows "\<exists>cv'. setDocumentScale sd pv tw th sc zm doc cv =
            Inr (cv',
                 js_mul (c_width (sd tw th cv) - vp_width vp)
                        (scrollRatio (vp_left vp) (c_width cv - vp_width vp)),
                 js_mul (c_height (sd tw th cv) - vp_height vp)
                        (scrollRatio (vp_top vp) (c_height cv - vp_height vp)))
         \<and> (vp_left vp = 0 \<longrightarrow> scrollRatio (vp_left vp) (c_width cv - vp_width vp) = Num (1 / 2))
         \<and> (vp_top vp = 0 \<longrightarrow> scrollRatio (vp_top vp) (c_height cv - vp_height vp) = Num (1 / 2))
         \<and> (vp_left vp \<noteq> 0 \<and> c_width cv - vp_width vp \<noteq> 0 \<longrightarrow>
              scrollRatio (vp_left vp) (c_width cv - vp_width vp)
                = Num (vp_left vp / (c_width cv - vp_width vp)))
         \<and> (vp_top vp \<noteq> 0 \<and> c_height cv - vp_height vp \<noteq> 0 \<longrightarrow>
              scrollRatio (vp_top vp) (c_height cv - vp_height vp)
                = Num (vp_top vp / (c_height cv - vp_height vp)))"
  using assms
  by (simp add: setDocumentScale_def Let_def setZoomFactor_size scrollRatio_unscrolled
      scrollRatio_scrolled)

theorem setDocumentScale_pan_witness:
  "c_viewport exampleCanvas = Some \<lparr> vp_left = 0, vp_top = 0, vp_width = 100, vp_height = 100 \<rparr>
   \<and> (\<exists>cv'. setDocumentScale storeDimensions noPan 400 400 1 1 None exampleCanvas
               = Inr (cv', Num 150, Num 150))
   \<and> c_viewport (exampleCanvas\<lparr> c_viewport := Some \<lparr> vp_left = 25, vp_top = 50, vp_width = 100, vp_height = 100 \<rparr> \<rparr>)
       = Some \<lparr> vp_left = 25, vp_top = 50, vp_width = 100, vp_height = 100 \<rparr>
   \<and> (\<exists>cv'. setDocumentScale storeDimensions noPan 400 400 1 1 None
                (exampleCanvas\<lparr> c_viewport := Some \<lparr> vp_left = 25, vp_top = 50, vp_width = 100, vp_height = 100 \<rparr> \<rparr>)
               = Inr (cv', Num 75, Num 150))"
proof -
  have v1: "c_viewport exampleCanvas
      = Some \<lparr> vp_left = 0, vp_top = 0, vp_width = 100, vp_height = 100 \<rparr>"
    by (simp add: exampleCanvas_def)
  have v2: "c_viewport (exampleCanvas\<lparr> c_viewport := Some \<lparr> vp_left = 25, vp_top = 50, vp_width = 100, vp_height = 100 \<rparr> \<rparr>)
       = Some \<lparr> vp_left = 25, vp_top = 50, vp_width = 100, vp_height = 100 \<rparr>"
    by simp
  show ?thesis
    using setDocumentScale_pan [OF v1, of storeDimensions noPan 400 400 1 1 None]
      setDocumentScale_pan [OF v2, of storeDimensions noPan 400 400 1 1 None]
    by (simp add: exampleCanvas_def storeDimensions_def js_mul_def scrollRatio_unscrolled scrollRatio_scrolled)
qed


section \<open>Translating input\<close>

text \<open>
  C7.  For a mouse event (mousedown, mousemove, mouseup) every call to a
  child carries the coordinate (event offset + viewport offset) / zoomFactor
  on each axis.  The children are called in reverse z-order, from the topmost
  down; every call but the last reported the event not handled, and the loop
  stops short of the bottom child only after a call that reported it handled.
  For sprites whose answer depends on the child alone, the children called
  are those above the first that handles the event, and that child.  With no
  viewport offset and a zoom factor that is not zero, doubling the zoom
  factor halves the coordinate.
\<close>

theorem mouse_dispatch:
  assumes "e_type e = ''mousedown'' \<or> e_type e = ''mousemove'' \<or> e_type e = ''mouseup''"
  shows "\<exists>tr cv' s' pd. handleInteraction pv h cv e s = Inr (tr, cv', s', pd)
     \<and> (\<forall>cl\<in>set tr. callCoordinate cl =
           (js_div (e_offsetX e + (case c_viewport cv of None \<Rightarrow> 0 | Some vp \<Rightarrow> vp_left vp)) (zoomFactor cv),
            js_div (e_offsetY e + (case c_viewport cv of None \<Rightarrow> 0 | Some vp \<Rightarrow> vp_top vp)) (zoomFactor cv)))
     \<and> map callChild tr = take (length tr) (rev (children cv))
     \<and> (\<forall>cl\<in>set (butlast tr). \<not> callFound cl)
     \<and> (length tr < length (children cv) \<longrightarrow> callFound (last tr))
     \<and> (children cv \<noteq> [] \<longrightarrow> tr \<noteq> [])
     \<and> ((\<forall>c st. h c (fst (mouseCoordinate cv e)) (snd (mouseCoordinate cv e)) e st = (p c, st)) \<longrightarrow>
          map callChild tr = takeWhile (\<lambda>c. \<not> p c) (rev (children cv))
                               @ take 1 (dropWhile (\<lambda>c. \<not> p c) (rev (children cv))))
     \<and> (zoomFactor cv \<noteq> 0 \<and> (c_viewport cv = None \<or> (\<exists>vp. c_viewport cv = Some vp \<and> vp_left vp = 0 \<and> vp_top vp = 0)) \<longrightarrow>
          mouseCoordinate cv e = (Num (e_offsetX e / zoomFactor cv), Num (e_offsetY e / zoomFactor cv))
          \<and> mouseCoordinate (cv\<lparr> zoomFactor := 2 * zoomFactor cv \<rparr>) e
              = (Num (e_offsetX e / zoomFactor cv / 2), Num (e_offsetY e / zoomFactor cv / 2)))"
proof -
  obtain px py where mc: "mouseCoordinate cv e = (px, py)" by (cases "mouseCoordinate cv e")
  obtain tr s' where dm: "dispatchMouse h px py e (rev (children cv)) s = (tr, s')"
    by (cases "dispatchMouse h px py e (rev (children cv)) s")
  have res: "handleInteraction pv h cv e s = Inr (tr, cv\<lparr> invalidated := True \<rparr>, s', preventDefaults cv)"
  proof (cases "children cv")
    case Nil
    with dm show ?thesis by (simp add: handleInteraction_def)
  next
    case (Cons a list)
    with assms mc dm show ?thesis by (simp add: handleInteraction_def)
  qed
  have coord: "(px, py) =
      (js_div (e_offsetX e + (case c_viewport cv of None \<Rightarrow> 0 | Some vp \<Rightarrow> vp_left vp)) (zoomFactor cv),
       js_div (e_offsetY e + (case c_viewport cv of None \<Rightarrow> 0 | Some vp \<Rightarrow> vp_top vp)) (zoomFactor cv))"
    using mc by (auto simp: mouseCoordinate_def split: option.splits)
  note t = dispatchMouse_trace [OF dm]
  have stateless: "(\<forall>c st. h c (fst (mouseCoordinate cv e)) (snd (mouseCoordinate cv e)) e st = (p c, st)) \<longrightarrow>
          map callChild tr = takeWhile (\<lambda>c. \<not> p c) (rev (children cv))
                               @ take 1 (dropWhile (\<lambda>c. \<not> p c) (rev (children cv)))"
  proof
    assume "\<forall>c st. h c (fst (mouseCoordinate cv e)) (snd (mouseCoordinate cv e)) e st = (p c, st)"
    then have "\<And>c st. h c px py e st = (p c, st)" using mc by simp
    from dispatchMouse_stateless [of h px py e p "rev (children cv)" s, OF this] dm
    show "map callChild tr = takeWhile (\<lambda>c. \<not> p c) (rev (children cv))
                               @ take 1 (dropWhile (\<lambda>c. \<not> p c) (rev (children cv)))"
      by simp
  qed
  have halving: "zoomFactor cv \<noteq> 0 \<and> (c_viewport cv = None \<or> (\<exists>vp. c_viewport cv = Some vp \<and> vp_left vp = 0 \<and> vp_top vp = 0)) \<longrightarrow>
          mouseCoordinate cv e = (Num (e_offsetX e / zoomFactor cv), Num (e_offsetY e / zoomFactor cv))
          \<and> mouseCoordinate (cv\<lparr> zoomFactor := 2 * zoomFactor cv \<rparr>) e
              = (Num (e_offsetX e / zoomFactor cv / 2), Num (e_offsetY e / zoomFactor cv / 2))"
    by (auto simp: mouseCoordinate_def js_div_def)
  have a1: "\<forall>cl\<in>set tr. callCoordinate cl =
           (js_div (e_offsetX e + (case c_viewport cv of None \<Rightarrow> 0 | Some vp \<Rightarrow> vp_left vp)) (zoomFactor cv),
            js_div (e_offsetY e + (case c_viewport cv of None \<Rightarrow> 0 | Some vp \<Rightarrow> vp_top vp)) (zoomFactor cv))"
    using t coord by simp
  have a2: "map callChild tr = take (length tr) (rev (children cv))"
    using t by simp
  have a3: "\<forall>cl\<in>set (butlast tr). \<not> callFound cl"
    using t by simp
  have a4: "length tr < length (children cv) \<longrightarrow> callFound (last tr)"
    using t by simp
  have a5: "children cv \<noteq> [] \<longrightarrow> tr \<noteq> []"
    using t by simp
  show ?thesis
    apply (rule exI [of _ tr])
    apply (rule exI [of _ "cv\<lparr> invalidated := True \<rparr>"])
    apply (rule exI [of _ s'])
    apply (rule exI [of _ "preventDefaults cv"])
    apply (intro conjI)
           apply (rule res)
          apply (rule a1)
         apply (rule a2)
        apply (rule a3)
       apply (rule a4)
      apply (rule a5)
     apply (rule stateless)
    apply (rule halving)
    done
qed

theorem mouse_dispatch_witness:
  "(e_type exampleMouseEvent = ''mousedown'' \<or> e_type exampleMouseEvent = ''mousemove''
      \<or> e_type exampleMouseEvent = ''mouseup'')
   \<and> (\<forall>c st. handledByChild 2 c (fst (mouseCoordinate exampleCanvas exampleMouseEvent))
                  (snd (mouseCoordinate exampleCanvas exampleMouseEvent)) exampleMouseEvent st
                = (c = 2, st))
   \<and> zoomFactor exampleCanvas \<noteq> 0
   \<and> handleInteraction noPan (handledByChild 2) exampleCanvas exampleMouseEvent ()
       = Inr ([(3, Num 30, Num 40, False), (2, Num 30, Num 40, True)],
              exampleCanvas\<lparr> invalidated := True \<rparr>, (), False)
   \<and> mouseCoordinate (exampleCanvas\<lparr> zoomFactor := 2 * zoomFactor exampleCanvas \<rparr>) exampleMouseEvent
       = (Num 15, Num 20)"
proof -
  have ty: "e_type exampleMouseEvent = ''mousedown'' \<or> e_type exampleMouseEvent = ''mousemove''
      \<or> e_type exampleMouseEvent = ''mouseup''"
    by (simp add: exampleMouseEvent_def)
  show ?thesis
    using mouse_dispatch [OF ty, of noPan "handledByChild 2" exampleCanvas "()" "\<lambda>c. c = 2"]
    by (simp add: handleInteraction_def exampleCanvas_def exampleMouseEvent_def
        mouseCoordinate_def js_div_def handledByChild_def)
qed

text \<open>
  C8, as stated, fails.  An event with the two touches \<open>(10, 10)\<close> and
  \<open>(50, 50)\<close> on a canvas at the origin, not scrolled, at zoom factor 1 is
  dispatched to all three children with the coordinate of the first touch;
  the coordinate of the second touch, \<open>(50, 50)\<close>, is computed nowhere and
  passed to no child.
\<close>

theorem touch_dispatch_first_touch_counterexample:
  "handleInteraction noPan (handledByChild 3) exampleCanvas exampleTouchEvent ()
     = Inr ([(3, Num 10, Num 10, True), (2, Num 10, Num 10, False), (1, Num 10, Num 10, False)],
            exampleCanvas\<lparr> invalidated := True \<rparr>, (), False)
   \<and> e_touches exampleTouchEvent = [(10, 10), (50, 50)]
   \<and> (js_div (50 - (fst (coordinate exampleCanvas) - 0)) (zoomFactor exampleCanvas),
       js_div (50 - (snd (coordinate exampleCanvas) - 0)) (zoomFactor exampleCanvas))
       = (Num 50, Num 50)
   \<and> (Num 50, Num 50)
       \<notin> set (map callCoordinate
                 (fst (projr (handleInteraction noPan (handledByChild 3) exampleCanvas
                                 exampleTouchEvent ()))))"
  by (simp add: handleInteraction_def exampleCanvas_def exampleTouchEvent_def
      touchCoordinate_def js_div_def handledByChild_def callCoordinate_def)

text \<open>
  C8, amended.  For every event that is neither a mouse event nor a wheel
  event, all children are called, in reverse z-order, whatever they report,
  and all with the same coordinate.  That coordinate is taken from the first
  touch alone (the first of \<^verbatim>\<open>touches\<close>, or of \<^verbatim>\<open>changedTouches\<close> when
  \<^verbatim>\<open>touches\<close> is empty): the canvas's coordinate less the viewport offset is
  subtracted from the touch's page coordinate and the difference is divided
  by zoomFactor.  With no touch at all the coordinate is \<open>(0, 0)\<close>.
\<close>

theorem touch_dispatch:
  assumes "e_type e \<noteq> ''mousedown'' \<and> e_type e \<noteq> ''mousemove'' \<and> e_type e \<noteq> ''mouseup''
           \<and> e_type e \<noteq> ''wheel''"
  shows "\<exists>tr cv' s' pd. handleInteraction pv h cv e s = Inr (tr, cv', s', pd)
     \<and> map callChild tr = rev (children cv)
     \<and> (\<forall>cl\<in>set tr. callCoordinate cl = touchCoordinate cv e)
     \<and> (\<forall>t ts. (if e_touches e \<noteq> [] then e_touches e else e_changedTouches e) = t # ts \<longrightarrow>
          touchCoordinate cv e =
            (js_div (fst t - (fst (coordinate cv)
                       - (case c_viewport cv of None \<Rightarrow> 0 | Some vp \<Rightarrow> vp_left vp))) (zoomFactor cv),
             js_div (snd t - (snd (coordinate cv)
                       - (case c_viewport cv of None \<Rightarrow> 0 | Some vp \<Rightarrow> vp_top vp))) (zoomFactor cv)))
     \<and> (e_touches e = [] \<and> e_changedTouches e = [] \<longrightarrow> touchCoordinate cv e = (Num 0, Num 0))"
proof -
  obtain px py where tc: "touchCoordinate cv e = (px, py)" by (cases "touchCoordinate cv e")
  obtain tr s' where dt: "dispatchTouch h px py e (rev (children cv)) s = (tr, s')"
    by (cases "dispatchTouch h px py e (rev (children cv)) s")
  have res: "handleInteraction pv h cv e s = Inr (tr, cv\<lparr> invalidated := True \<rparr>, s', preventDefaults cv)"
  proof (cases "children cv")
    case Nil
    with dt show ?thesis by (simp add: handleInteraction_def)
  next
    case (Cons a list)
    with assms tc dt show ?thesis by (simp add: handleInteraction_def)
  qed
  note t = dispatchTouch_trace [OF dt]
  have a1: "map callChild tr = rev (children cv)" using t by simp
  have a2: "\<forall>cl\<in>set tr. callCoordinate cl = touchCoordinate cv e" using t tc by simp
  have a3: "\<forall>t ts. (if e_touches e \<noteq> [] then e_touches e else e_changedTouches e) = t # ts \<longrightarrow>
          touchCoordinate cv e =
            (js_div (fst t - (fst (coordinate cv)
                       - (case c_viewport cv of None \<Rightarrow> 0 | Some vp \<Rightarrow> vp_left vp))) (zoomFactor cv),
             js_div (snd t - (snd (coordinate cv)
                       - (case c_viewport cv of None \<Rightarrow> 0 | Some vp \<Rightarrow> vp_top vp))) (zoomFactor cv))"
    by (auto simp: touchCoordinate_def Let_def split: option.splits prod.splits if_splits)
  have a4: "e_touches e = [] \<and> e_changedTouches e = [] \<longrightarrow> touchCoordinate cv e = (Num 0, Num 0)"
    by (simp add: touchCoordinate_def)
  show ?thesis
    apply (rule exI [of _ tr])
    apply (rule exI [of _ "cv\<lparr> invalidated := True \<rparr>"])
    apply (rule exI [of _ s'])
    apply (rule exI [of _ "preventDefaults cv"])
    apply (intro conjI)
        apply (rule res)
       apply (rule a1)
      apply (rule a2)
     apply (rule a3)
    apply (rule a4)
    done
qed

theorem touch_dispatch_witness:
  "(e_type exampleTouchEvent \<noteq> ''mousedown'' \<and> e_type exampleTouchEvent \<noteq> ''mousemove''
      \<and> e_type exampleTouchEvent \<noteq> ''mouseup'' \<and> e_type exampleTouchEvent \<noteq> ''wheel'')
   \<and> (if e_touches exampleTouchEvent \<noteq> [] then e_touches exampleTouchEvent
       else e_changedTouches exampleTouchEvent) = (10, 10) # [(50, 50)]
   \<and> touchCoordinate exampleCanvas exampleTouchEvent = (Num 10, Num 10)
   \<and> (\<exists>tr cv' s' pd.
         handleInteraction noPan (handledByChild 3) exampleCanvas exampleTouchEvent ()
           = Inr (tr, cv', s', pd)
         \<and> map callChild tr = [3, 2, 1]
         \<and> map callCoordinate tr = [(Num 10, Num 10), (Num 10, Num 10), (Num 10, Num 10)])
   \<and> e_touches (exampleTouchEvent\<lparr> e_touches := [] \<rparr>) = []
   \<and> e_changedTouches (exampleTouchEvent\<lparr> e_touches := [] \<rparr>) = []
   \<and> touchCoordinate exampleCanvas (exampleTouchEvent\<lparr> e_touches := [] \<rparr>) = (Num 0, Num 0)"
proof -
  have ty: "e_type exampleTouchEvent \<noteq> ''mousedown'' \<and> e_type exampleTouchEvent \<noteq> ''mousemove''
      \<and> e_type exampleTouchEvent \<noteq> ''mouseup'' \<and> e_type exampleTouchEvent \<noteq> ''wheel''"
    by (simp add: exampleTouchEvent_def)
  have ty': "e_type (exampleTouchEvent\<lparr> e_touches := [] \<rparr>) \<noteq> ''mousedown''
      \<and> e_type (exampleTouchEvent\<lparr> e_touches := [] \<rparr>) \<noteq> ''mousemove''
      \<and> e_type (exampleTouchEvent\<lparr> e_touches := [] \<rparr>) \<noteq> ''mouseup''
      \<and> e_type (exampleTouchEvent\<lparr> e_touches := [] \<rparr>) \<noteq> ''wheel''"
    by (simp add: exampleTouchEvent_def)
  have tl: "(if e_touches exampleTouchEvent \<noteq> [] then e_touches exampleTouchEvent
       else e_changedTouches exampleTouchEvent) = (10, 10) # [(50, 50)]"
    by (simp add: exampleTouchEvent_def)
  have cs: "rev (children exampleCanvas) = [3, 2, 1]"
    by (simp add: exampleCanvas_def)
  have e0: "e_touches (exampleTouchEvent\<lparr> e_touches := [] \<rparr>) = []
      \<and> e_changedTouches (exampleTouchEvent\<lparr> e_touches := [] \<rparr>) = []"
    by (simp add: exampleTouchEvent_def)
  from touch_dispatch [OF ty, of noPan "handledByChild 3" exampleCanvas "()"]
  obtain tr cv' s' pd where
    r: "handleInteraction noPan (handledByChild 3) exampleCanvas exampleTouchEvent ()
          = Inr (tr, cv', s', pd)"
    and m: "map callChild tr = rev (children exampleCanvas)"
    and c: "\<forall>cl\<in>set tr. callCoordinate cl = touchCoordinate exampleCanvas exampleTouchEvent"
    and f: "\<forall>t ts. (if e_touches exampleTouchEvent \<noteq> [] then e_touches exampleTouchEvent
                    else e_changedTouches exampleTouchEvent) = t # ts \<longrightarrow>
          touchCoordinate exampleCanvas exampleTouchEvent =
            (js_div (fst t - (fst (coordinate exampleCanvas)
                       - (case c_viewport exampleCanvas of None \<Rightarrow> 0 | Some vp \<Rightarrow> vp_left vp)))
                    (zoomFactor exampleCanvas),
             js_div (snd t - (snd (coordinate exampleCanvas)
                       - (case c_viewport exampleCanvas of None \<Rightarrow> 0 | Some vp \<Rightarrow> vp_top vp)))
                    (zoomFactor exampleCanvas))"
    by blast
  from f tl have "touchCoordinate exampleCanvas exampleTouchEvent =
            (js_div (fst ((10, 10) :: real \<times> real) - (fst (coordinate exampleCanvas)
                       - (case c_viewport exampleCanvas of None \<Rightarrow> 0 | Some vp \<Rightarrow> vp_left vp)))
                    (zoomFactor exampleCanvas),
             js_div (snd ((10, 10) :: real \<times> real) - (snd (coordinate exampleCanvas)
                       - (case c_viewport exampleCanvas of None \<Rightarrow> 0 | Some vp \<Rightarrow> vp_top vp)))
                    (zoomFactor exampleCanvas))"
    by blast
  then have tc: "touchCoordinate exampleCanvas exampleTouchEvent = (Num 10, Num 10)"
    by (simp add: exampleCanvas_def js_div_def)
  from touch_dispatch [OF ty', of noPan "handledByChild 3" exampleCanvas "()"] e0
  have z: "touchCoordinate exampleCanvas (exampleTouchEvent\<lparr> e_touches := [] \<rparr>) = (Num 0, Num 0)"
    by blast
  from r m c cs tc have "\<exists>tr cv' s' pd.
         handleInteraction noPan (handledByChild 3) exampleCanvas exampleTouchEvent ()
           = Inr (tr, cv', s', pd)
         \<and> map callChild tr = [3, 2, 1]
         \<and> map callCoordinate tr = [(Num 10, Num 10), (Num 10, Num 10), (Num 10, Num 10)]"
  proof -
    from m cs have "length (map callChild tr) = 3" by simp
    then have len: "length tr = 3" by simp
    from c tc have "map callCoordinate tr = replicate (length tr) (Num 10, Num 10)"
      by (simp add: map_replicate_const [symmetric] cong: map_cong)
    with len have "map callCoordinate tr = [(Num 10, Num 10), (Num 10, Num 10), (Num 10, Num 10)]"
      by (simp add: numeral_3_eq_3)
    with r m cs show ?thesis by auto
  qed
  with ty tl tc e0 z show ?thesis by blast
qed

end
